theory Spec2Isabelle
  imports Complex_Main
begin

section \<open>Python values used by chatbothealth.py\<close>

text \<open>
  A Python \<open>str\<close> is the list of the code points of its characters, and \<open>lit\<close> gives
  the \<open>str\<close> of a literal written in ASCII. Exceptions are values of \<open>py_error\<close>,
  and a function that can raise returns \<open>py_error + 'a\<close> with \<open>Inl\<close> for the exception.
\<close>

type_synonym str = "nat list"

definition lit :: "string \<Rightarrow> str" where
  "lit s = map of_char s"

datatype py_error =
    IndexError | TypeError | AttributeError | ValueError
  | RequestException | JSONDecodeError | ParseError

subsection \<open>The Unicode tables behind str and re\<close>

text \<open>
  Which characters are whitespace, decimal digits or alphanumeric, and what lowercasing
  a text gives, is decided by the Unicode database of the Python runtime, which is no
  part of the program. The tables are a parameter of everything that uses them:
  \<open>isspace u c\<close> is \<open>str.isspace\<close> of the character \<open>c\<close> (used by \<open>strip\<close> and
  \<open>split\<close>), \<open>lower u s\<close> is \<open>s.lower()\<close>, \<open>isdecimal u c\<close> says that \<open>\d\<close>
  matches \<open>c\<close>, and \<open>isalnum u c\<close> that \<open>c\<close> is alphanumeric, so that \<open>\w\<close> matches it.
\<close>

record unicode =
  isspace :: "nat \<Rightarrow> bool"
  lower :: "str \<Rightarrow> str"
  isdecimal :: "nat \<Rightarrow> bool"
  isalnum :: "nat \<Rightarrow> bool"

subsection \<open>str.strip, str.split, str.replace, substring test\<close>

definition strip :: "unicode \<Rightarrow> str \<Rightarrow> str" where
  "strip u s = rev (dropWhile (isspace u) (rev (dropWhile (isspace u) s)))"

text \<open>\<open>s.split()\<close>: the maximal runs of non-whitespace characters, left to right.
  \<open>cur\<close> is the token being read.\<close>

fun split_from :: "unicode \<Rightarrow> str \<Rightarrow> str \<Rightarrow> str list" where
  "split_from u cur [] = (if cur = [] then [] else [cur])"
| "split_from u cur (c # cs) =
     (if isspace u c
      then (if cur = [] then split_from u [] cs else cur # split_from u [] cs)
      else split_from u (cur @ [c]) cs)"

definition split :: "unicode \<Rightarrow> str \<Rightarrow> str list" where
  "split u s = split_from u [] s"

text \<open>\<open>pat in s\<close> for strings: \<open>pat\<close> occurs in \<open>s\<close> as a contiguous substring.\<close>

fun starts_with :: "str \<Rightarrow> str \<Rightarrow> bool" where
  "starts_with [] s = True"
| "starts_with (p # ps) [] = False"
| "starts_with (p # ps) (c # cs) = (p = c \<and> starts_with ps cs)"

fun contains :: "str \<Rightarrow> str \<Rightarrow> bool" where
  "contains pat [] = (pat = [])"
| "contains pat (c # cs) = (starts_with pat (c # cs) \<or> contains pat cs)"

text \<open>\<open>s.replace(pat, "")\<close> for a non-empty \<open>pat\<close>: scanning from the left, every
  occurrence of \<open>pat\<close> is deleted and the scan goes on behind it.\<close>

fun remove_all :: "str \<Rightarrow> str \<Rightarrow> str" where
  "remove_all pat [] = []"
| "remove_all pat (c # cs) =
     (if pat \<noteq> [] \<and> starts_with pat (c # cs)
      then remove_all pat (drop (length pat) (c # cs))
      else c # remove_all pat cs)"

section \<open>The FAQ store: load_faq, questions, answers\<close>

text \<open>
  \<open>load_faq\<close> reads \<open>None\<close> when the file does not exist and \<open>Some ls\<close> with the lines
  the file yields otherwise. \<open>lines\<close> are the stripped non-blank lines; the loop runs
  over \<open>i = 0, 2, 4, ...\<close> below \<open>len(lines)\<close> and appends a pair when \<open>i + 1\<close> is
  still an index.
\<close>

function faq_loop :: "unicode \<Rightarrow> str list \<Rightarrow> nat \<Rightarrow> (str \<times> str) list" where
  "faq_loop u lines i =
     (if i < length lines
      then (if i + 1 < length lines
            then (lower u (strip u (remove_all (lit ''Q:'') (lines ! i))),
                  strip u (remove_all (lit ''A:'') (lines ! (i + 1)))) # faq_loop u lines (i + 2)
            else faq_loop u lines (i + 2))
      else [])"
  by pat_completeness auto
termination
  by (relation "measure (\<lambda>(u, lines, i). length lines - i)") auto

declare faq_loop.simps [simp del]

definition load_faq :: "unicode \<Rightarrow> str list option \<Rightarrow> (str \<times> str) list" where
  "load_faq u src =
     (case src of
        None \<Rightarrow> []
      | Some ls \<Rightarrow> faq_loop u (filter (\<lambda>l. l \<noteq> []) (map (strip u) ls)) 0)"

definition questions :: "(str \<times> str) list \<Rightarrow> str list" where
  "questions faq_pairs = map fst faq_pairs"

definition answers :: "(str \<times> str) list \<Rightarrow> str list" where
  "answers faq_pairs = map snd faq_pairs"

section \<open>The FAQ matcher: faq_response\<close>

text \<open>
  The TF-IDF vectoriser and \<open>cosine_similarity\<close> are library calls: \<open>sim qs t\<close> stands
  for the row of scores of the text \<open>t\<close> against the questions \<open>qs\<close>, or the exception
  the library raises.
\<close>

type_synonym similarity = "str list \<Rightarrow> str \<Rightarrow> py_error + real list"

text \<open>
  numpy's \<open>argsort\<close> is a library call as well. What numpy says of its result is
  \<open>ascending_order\<close>: it lists every index of the row once, and the scores ascend along
  it. The order among equal scores is not fixed for the default sort that the program
  asks for.
\<close>

type_synonym argsort = "real list \<Rightarrow> nat list"

definition ascending_order :: "real list \<Rightarrow> nat list \<Rightarrow> bool" where
  "ascending_order sims order =
     (length order = length sims \<and> distinct order \<and> (\<forall>i\<in>set order. i < length sims)
      \<and> sorted (map (\<lambda>i. sims ! i) order))"

text \<open>\<open>sims.argsort()[0][-1]\<close> and \<open>sims[0][idx]\<close> raise on an index that does not
  exist, and so does \<open>answers[idx]\<close>.\<close>

definition faq_response ::
  "unicode \<Rightarrow> argsort \<Rightarrow> similarity \<Rightarrow> (str \<times> str) list \<Rightarrow> str \<Rightarrow> real
     \<Rightarrow> py_error + str option" where
  "faq_response u argsort sim faq_pairs user_text threshold =
     (if questions faq_pairs = [] then Inr None
      else
        (case sim (questions faq_pairs) (strip u (lower u user_text)) of
           Inl e \<Rightarrow> Inl e
         | Inr sims \<Rightarrow>
             (let order = argsort sims
              in if order = [] then Inl IndexError
                 else
                   (let idx = last order
                    in if \<not> idx < length sims then Inl IndexError
                       else
                         (let score = sims ! idx
                          in if score < threshold then Inr None
                             else if idx < length (answers faq_pairs)
                                  then Inr (Some (answers faq_pairs ! idx))
                                  else Inl IndexError)))))"

section \<open>Greeting helpers\<close>

definition GREET_IN :: "str list" where
  "GREET_IN = [lit ''hello'', lit ''hi'', lit ''hey'', lit ''namaste'', lit ''whassup'',
               lit ''how are you?'']"

definition GREET_OUT :: "str list" where
  "GREET_OUT = [lit ''Hello!'', lit ''Hi there!'', lit ''Hey!'', lit ''Namaste!'']"

text \<open>\<open>random.choice(seq)\<close> returns \<open>seq[k]\<close> for an index \<open>k\<close> below \<open>len(seq)\<close> that
  the random source draws; \<open>rnd\<close> is the state of that source.\<close>

definition random_choice :: "nat \<Rightarrow> 'a list \<Rightarrow> 'a" where
  "random_choice rnd xs = xs ! (rnd mod length xs)"

fun greet_loop :: "unicode \<Rightarrow> nat \<Rightarrow> str list \<Rightarrow> str option" where
  "greet_loop u rnd [] = None"
| "greet_loop u rnd (w # ws) =
     (if lower u w \<in> set GREET_IN then Some (random_choice rnd GREET_OUT)
      else greet_loop u rnd ws)"

definition maybe_greet :: "unicode \<Rightarrow> nat \<Rightarrow> str \<Rightarrow> str option" where
  "maybe_greet u rnd txt = greet_loop u rnd (split u txt)"

section \<open>Real-time data integrations\<close>

subsection \<open>What the HTTP, JSON and XML libraries hand to the fetchers\<close>

datatype json =
    JNull | JBool bool | JNum real | JStr str | JArr "json list"
  | JObj "(str \<times> json) list"

datatype xml = Element (elem_tag: str) (elem_text: "str option") (elem_children: "xml list")

text \<open>
  A response carries its status code and what decoding its body gives: the value of
  \<open>r.json()\<close> or of \<open>ET.fromstring(r.content)\<close>, or the exception the decoder raises.
  \<open>requests.get\<close> itself returns a response or raises (timeout, network error).
\<close>

record 'p response =
  status_code :: int
  decoded :: "py_error + 'p"

type_synonym 'p http_result = "py_error + 'p response"

text \<open>Truth value of a decoded JSON value in a Python condition.\<close>

fun truthy :: "json \<Rightarrow> bool" where
  "truthy JNull = False"
| "truthy (JBool b) = b"
| "truthy (JNum x) = (x \<noteq> 0)"
| "truthy (JStr s) = (s \<noteq> [])"
| "truthy (JArr xs) = (xs \<noteq> [])"
| "truthy (JObj kvs) = (kvs \<noteq> [])"

text \<open>\<open>d.get(key, default)\<close> on a decoded object, given by its items.\<close>

definition dict_get :: "(str \<times> json) list \<Rightarrow> str \<Rightarrow> json \<Rightarrow> json" where
  "dict_get kvs key dflt = (case map_of kvs key of Some v \<Rightarrow> v | None \<Rightarrow> dflt)"

text \<open>
  What the formatting built-ins give: \<open>str_other\<close> is \<open>str(v)\<close> for a number, a list
  or a dict, and \<open>format_time v\<close> is
  \<open>datetime.fromtimestamp(v/1000).strftime("%d-%b-%Y %H:%M")\<close> in the local time zone,
  which raises on a value that is no number or is out of range.
\<close>

record formats =
  str_other :: "json \<Rightarrow> str"
  format_time :: "json \<Rightarrow> py_error + str"

text \<open>\<open>{v}\<close> inside an f-string.\<close>

definition py_str :: "formats \<Rightarrow> json \<Rightarrow> str" where
  "py_str fm v =
     (case v of
        JStr s \<Rightarrow> s
      | JNull \<Rightarrow> lit ''None''
      | JBool b \<Rightarrow> (if b then lit ''True'' else lit ''False'')
      | _ \<Rightarrow> str_other fm v)"

fun join :: "str \<Rightarrow> str list \<Rightarrow> str" where
  "join sep [] = []"
| "join sep [x] = x"
| "join sep (x # y # ys) = x @ sep @ join sep (y # ys)"

text \<open>The characters of the source's string literals that are not ASCII, by code point.\<close>

definition newline :: str where
  "newline = [0x0A]"

definition bullet :: str where
  "bullet = [0xE2, 0x20AC, 0xA2]"

definition covid_header :: str where
  "covid_header =
     [0xF0, 0x178, 0x2021, 0xAE, 0xF0, 0x178, 0x2021, 0xB3] @ lit '' India COVID Update:''"

definition who_header :: str where
  "who_header = [0xF0, 0x178, 0x2020, 0x2DC] @ lit '' WHO Disease Outbreak News:''"

definition cowin_header :: str where
  "cowin_header = [0xF0, 0x178, 0x2019, 0x2030] @ lit '' Available Vaccination Slots:''"

subsection \<open>get_covid_update_india\<close>

definition covid_unavailable :: str where
  "covid_unavailable = lit ''Live COVID update is temporarily unavailable.''"

text \<open>The body of the \<open>try\<close>: \<open>Inl\<close> is an exception raised inside it.\<close>

definition get_covid_try :: "formats \<Rightarrow> json http_result \<Rightarrow> py_error + str" where
  "get_covid_try fm res =
     (case res of
        Inl e \<Rightarrow> Inl e
      | Inr r \<Rightarrow>
          (if status_code r \<noteq> 200 then Inr covid_unavailable
           else
             (case decoded r of
                Inl e \<Rightarrow> Inl e
              | Inr (JObj j) \<Rightarrow>
                  (let today_cases = dict_get j (lit ''todayCases'') (JStr (lit ''N/A''));
                       today_deaths = dict_get j (lit ''todayDeaths'') (JStr (lit ''N/A''));
                       total_cases = dict_get j (lit ''cases'') (JStr (lit ''N/A''));
                       updated = dict_get j (lit ''updated'') JNull
                   in (case (if truthy updated then format_time fm updated
                             else Inr (lit ''N/A'')) of
                         Inl e \<Rightarrow> Inl e
                       | Inr when \<Rightarrow>
                           Inr (covid_header @ newline
                                @ bullet @ lit '' New cases today: '' @ py_str fm today_cases
                                @ newline
                                @ bullet @ lit '' New deaths today: '' @ py_str fm today_deaths
                                @ newline
                                @ bullet @ lit '' Total cases: '' @ py_str fm total_cases
                                @ newline
                                @ lit ''(Last updated: '' @ when @ lit '')'')))
              | Inr _ \<Rightarrow> Inl AttributeError)))"

definition get_covid_update_india :: "formats \<Rightarrow> json http_result \<Rightarrow> str" where
  "get_covid_update_india fm res =
     (case get_covid_try fm res of Inl e \<Rightarrow> covid_unavailable | Inr s \<Rightarrow> s)"

subsection \<open>get_who_outbreak_headlines\<close>

definition who_unavailable :: str where
  "who_unavailable = lit ''WHO outbreak feed is unavailable right now.''"

definition who_no_items :: str where
  "who_no_items = lit ''No current outbreak items from WHO.''"

text \<open>\<open>e.find(t)\<close> and \<open>e.findall(t)\<close> for a plain tag name: the first child, and all
  children in document order, with that tag.\<close>

definition find_child :: "str \<Rightarrow> xml \<Rightarrow> xml option" where
  "find_child t e = find (\<lambda>c. elem_tag c = t) (elem_children e)"

definition findall :: "str \<Rightarrow> xml \<Rightarrow> xml list" where
  "findall t e = filter (\<lambda>c. elem_tag c = t) (elem_children e)"

text \<open>\<open>channel.findall("item") if channel is not None else []\<close>.\<close>

definition feed_items :: "xml \<Rightarrow> xml list" where
  "feed_items root_elem =
     (case find_child (lit ''channel'') root_elem of
        Some channel \<Rightarrow> findall (lit ''item'') channel
      | None \<Rightarrow> [])"

text \<open>\<open>it.find("title").text if it.find("title") is not None else None\<close>.\<close>

definition item_title :: "xml \<Rightarrow> str option" where
  "item_title it =
     (case find_child (lit ''title'') it of Some ti \<Rightarrow> elem_text ti | None \<Rightarrow> None)"

text \<open>The loop over \<open>items[:limit]\<close>: an item with a non-empty title text adds a line.\<close>

fun title_lines :: "xml list \<Rightarrow> str list" where
  "title_lines [] = []"
| "title_lines (it # its) =
     (case item_title it of
        None \<Rightarrow> title_lines its
      | Some t \<Rightarrow> (if t = [] then title_lines its
                   else (bullet @ lit '' '' @ t) # title_lines its))"

definition get_who_try :: "xml http_result \<Rightarrow> nat \<Rightarrow> py_error + str" where
  "get_who_try res limit =
     (case res of
        Inl e \<Rightarrow> Inl e
      | Inr r \<Rightarrow>
          (if status_code r \<noteq> 200 then Inr who_unavailable
           else
             (case decoded r of
                Inl e \<Rightarrow> Inl e
              | Inr root_elem \<Rightarrow>
                  (let items = feed_items root_elem
                   in if items = [] then Inr who_no_items
                      else
                        (let titles = title_lines (take limit items)
                         in if titles \<noteq> []
                            then Inr (who_header @ newline @ join newline titles)
                            else Inr who_no_items)))))"

definition get_who_outbreak_headlines :: "xml http_result \<Rightarrow> nat \<Rightarrow> str" where
  "get_who_outbreak_headlines res limit =
     (case get_who_try res limit of Inl e \<Rightarrow> who_unavailable | Inr s \<Rightarrow> s)"

subsection \<open>get_cowin_slots_by_pin\<close>

definition cowin_unavailable :: str where
  "cowin_unavailable = lit ''Vaccination slot service is temporarily unavailable.''"

definition cowin_no_slots :: str where
  "cowin_no_slots = lit ''No vaccination slots found for the given PIN and date.''"

text \<open>The loop over \<open>data[:10]\<close>: a session that is no object has no \<open>get\<close>.\<close>

fun slot_lines :: "formats \<Rightarrow> json list \<Rightarrow> py_error + str list" where
  "slot_lines fm [] = Inr []"
| "slot_lines fm (JObj s # ss) =
     (case slot_lines fm ss of
        Inl e \<Rightarrow> Inl e
      | Inr ls \<Rightarrow>
          Inr ((bullet @ lit '' '' @ py_str fm (dict_get s (lit ''name'') (JStr (lit ''Center'')))
                @ lit '' | '' @ py_str fm (dict_get s (lit ''vaccine'') (JStr (lit ''Vaccine'')))
                @ lit '' | Min Age: ''
                @ py_str fm (dict_get s (lit ''min_age_limit'') (JStr (lit ''-'')))
                @ lit '' | Dose1: ''
                @ py_str fm (dict_get s (lit ''available_capacity_dose1'') (JStr (lit ''-'')))
                @ lit '' | Dose2: ''
                @ py_str fm (dict_get s (lit ''available_capacity_dose2'') (JStr (lit ''-''))))
               # ls))"
| "slot_lines fm (s # ss) = Inl AttributeError"

text \<open>\<open>data\<close> is true here. A list is sliced; a string is sliced into characters, which
  have no \<open>get\<close>; any other true value cannot be sliced.\<close>

definition get_cowin_try :: "formats \<Rightarrow> json http_result \<Rightarrow> py_error + str" where
  "get_cowin_try fm res =
     (case res of
        Inl e \<Rightarrow> Inl e
      | Inr r \<Rightarrow>
          (if status_code r \<noteq> 200 then Inr cowin_unavailable
           else
             (case decoded r of
                Inl e \<Rightarrow> Inl e
              | Inr (JObj j) \<Rightarrow>
                  (let data = dict_get j (lit ''sessions'') (JArr [])
                   in if \<not> truthy data then Inr cowin_no_slots
                      else
                        (case data of
                           JArr xs \<Rightarrow>
                             (case slot_lines fm (take 10 xs) of
                                Inl e \<Rightarrow> Inl e
                              | Inr ls \<Rightarrow> Inr (join newline (cowin_header # ls)))
                         | JStr s \<Rightarrow> Inl AttributeError
                         | _ \<Rightarrow> Inl TypeError))
              | Inr _ \<Rightarrow> Inl AttributeError)))"

definition get_cowin_slots_by_pin :: "formats \<Rightarrow> json http_result \<Rightarrow> str" where
  "get_cowin_slots_by_pin fm res =
     (case get_cowin_try fm res of Inl e \<Rightarrow> cowin_unavailable | Inr s \<Rightarrow> s)"

section \<open>The router: handle_user_message\<close>

subsection \<open>re.search for the two patterns\<close>

text \<open>\<open>\w\<close> matches the alphanumeric characters and the underscore.\<close>

definition is_word :: "unicode \<Rightarrow> nat \<Rightarrow> bool" where
  "is_word u c = (isalnum u c \<or> c = 0x5F)"

text \<open>\<open>\b\<close>: exactly one of the character before and the character after is a word
  character; beyond either end of the text there is none.\<close>

definition at_boundary :: "unicode \<Rightarrow> bool \<Rightarrow> str \<Rightarrow> bool" where
  "at_boundary u prev_word rest =
     (prev_word \<noteq> (case rest of [] \<Rightarrow> False | c # _ \<Rightarrow> is_word u c))"

datatype atom = Digit | Lit nat

fun match_atoms :: "unicode \<Rightarrow> atom list \<Rightarrow> str \<Rightarrow> bool" where
  "match_atoms u [] s = True"
| "match_atoms u (a # as) [] = False"
| "match_atoms u (Digit # as) (c # cs) = (isdecimal u c \<and> match_atoms u as cs)"
| "match_atoms u (Lit l # as) (c # cs) = (c = l \<and> match_atoms u as cs)"

text \<open>\<open>re.search(r"\b(pat)\b", s)\<close> for a pattern of fixed width: the leftmost
  position where the pattern matches between two boundaries; the result is group 1.
  \<open>prev_word\<close> tells whether the character before the position is a word character.\<close>

fun search_from :: "unicode \<Rightarrow> atom list \<Rightarrow> bool \<Rightarrow> str \<Rightarrow> str option" where
  "search_from u pat prev_word [] = None"
| "search_from u pat prev_word (c # cs) =
     (if at_boundary u prev_word (c # cs) \<and> match_atoms u pat (c # cs)
         \<and> at_boundary u (is_word u (last (take (length pat) (c # cs))))
                        (drop (length pat) (c # cs))
      then Some (take (length pat) (c # cs))
      else search_from u pat (is_word u c) cs)"

text \<open>\<open>\d{6}\<close> and \<open>\d{2}-\d{2}-\d{4}\<close>; the hyphen is character 0x2D.\<close>

definition pin_pattern :: "atom list" where
  "pin_pattern = [Digit, Digit, Digit, Digit, Digit, Digit]"

definition date_pattern :: "atom list" where
  "date_pattern =
     [Digit, Digit, Lit 0x2D, Digit, Digit, Lit 0x2D, Digit, Digit, Digit, Digit]"

definition search_pin :: "unicode \<Rightarrow> str \<Rightarrow> str option" where
  "search_pin u s = search_from u pin_pattern False s"

definition search_date :: "unicode \<Rightarrow> str \<Rightarrow> str option" where
  "search_date u s = search_from u date_pattern False s"

subsection \<open>The decision list\<close>

text \<open>Everything outside the program that one call of the router can touch.\<close>

record world =
  tables :: unicode
  rnd_draw :: nat
  covid_http :: "json http_result"
  who_http :: "xml http_result"
  cowin_http :: "str \<Rightarrow> str \<Rightarrow> json http_result"
  fmts :: formats
  np_argsort :: argsort
  tfidf_sim :: similarity

definition type_prompt :: str where
  "type_prompt = lit ''Please type your question.''"

definition greet_suffix :: str where
  "greet_suffix = lit '' Ask me about symptoms, prevention, vaccines, or outbreaks.''"

text \<open>The apostrophe is character 0x27.\<close>

definition usage_hint :: str where
  "usage_hint =
     lit ''To check vaccination slots, send: '' @ [0x27] @ lit ''Check slots PINCODE DATE''
     @ [0x27] @ lit '' (e.g., '' @ [0x27] @ lit ''Check slots 700001 31-08-2025''
     @ [0x27] @ lit '').''"

definition apology :: str where
  "apology =
     lit ''Sorry, I don'' @ [0xE2, 0x20AC, 0x2122]
     @ lit ''t have that information yet. Please consult a healthcare professional.''"

definition handle_user_message ::
  "world \<Rightarrow> (str \<times> str) list \<Rightarrow> str \<Rightarrow> py_error + str" where
  "handle_user_message w faq_pairs user_msg =
     (if user_msg = [] then Inr type_prompt
      else
        (let g = maybe_greet (tables w) (rnd_draw w) user_msg
         in if g \<noteq> None \<and> g \<noteq> Some []
            then Inr (the g @ greet_suffix)
            else
              (let text = strip (tables w) (lower (tables w) user_msg)
               in if contains (lit ''covid'') text \<or> contains (lit ''corona'') text
                  then Inr (get_covid_update_india (fmts w) (covid_http w))
                  else if contains (lit ''who'') text
                          \<and> (contains (lit ''outbreak'') text \<or> contains (lit ''news'') text
                              \<or> contains (lit ''alert'') text)
                  then Inr (get_who_outbreak_headlines (who_http w) 5)
                  else if (contains (lit ''vaccination'') text \<or> contains (lit ''vaccine'') text)
                          \<and> (contains (lit ''slot'') text \<or> contains (lit ''available'') text
                              \<or> contains (lit ''pin'') text)
                  then (case (search_pin (tables w) text, search_date (tables w) text) of
                          (Some pin, Some date) \<Rightarrow>
                            Inr (get_cowin_slots_by_pin (fmts w) (cowin_http w pin date))
                        | _ \<Rightarrow> Inr usage_hint)
                  else (case faq_response (tables w) (np_argsort w) (tfidf_sim w) faq_pairs text
                               (35 / 100) of
                          Inl e \<Rightarrow> Inl e
                        | Inr (Some ans) \<Rightarrow> (if ans \<noteq> [] then Inr ans else Inr apology)
                        | Inr None \<Rightarrow> Inr apology))))"

section \<open>Example inputs\<close>

text \<open>
  Tables, library results, endpoints and feeds on which the functions are evaluated.
  \<open>ascii\<close> has Python's tables on the ASCII characters and leaves every other character
  alone and outside every class; it is used on ASCII texts only.
\<close>

definition ascii :: unicode where
  "ascii =
     \<lparr>isspace = (\<lambda>c. (9 \<le> c \<and> c \<le> 13) \<or> (28 \<le> c \<and> c \<le> 32)),
      lower = map (\<lambda>c. if 65 \<le> c \<and> c \<le> 90 then c + 32 else c),
      isdecimal = (\<lambda>c. 48 \<le> c \<and> c \<le> 57),
      isalnum = (\<lambda>c. (48 \<le> c \<and> c \<le> 57) \<or> (65 \<le> c \<and> c \<le> 90) \<or> (97 \<le> c \<and> c \<le> 122))\<rparr>"

text \<open>A similarity that returns a given row, and one that always raises.\<close>

definition fixed_scores :: "real list \<Rightarrow> similarity" where
  "fixed_scores sims qs t = Inr sims"

definition failing_similarity :: similarity where
  "failing_similarity qs t = Inl ValueError"

text \<open>Two sorts of the indices by ascending score: one leaves equal scores in index
  order, the other puts them in reverse index order.\<close>

definition order_preserving_argsort :: argsort where
  "order_preserving_argsort sims = map fst (sort_key snd (enumerate 0 sims))"

definition tie_reversing_argsort :: argsort where
  "tie_reversing_argsort sims = rev (map fst (sort_key (\<lambda>p. - snd p) (enumerate 0 sims)))"

definition plain_formats :: formats where
  "plain_formats =
     \<lparr>str_other = (\<lambda>v. lit ''#''), format_time = (\<lambda>v. Inr (lit ''01-Jan-2025 00:00''))\<rparr>"

text \<open>Every request times out; the FAQ similarity is \<open>sm\<close>.\<close>

definition offline :: "similarity \<Rightarrow> world" where
  "offline sm =
     \<lparr>tables = ascii, rnd_draw = 0, covid_http = Inl RequestException,
      who_http = Inl RequestException, cowin_http = (\<lambda>pin date. Inl RequestException),
      fmts = plain_formats, np_argsort = order_preserving_argsort, tfidf_sim = sm\<rparr>"

text \<open>The slot endpoint answers with one session that names the PIN and the date it was
  asked for; the COVID endpoint answers with an empty object.\<close>

definition echo_slots :: "str \<Rightarrow> str \<Rightarrow> json http_result" where
  "echo_slots pin date =
     Inr \<lparr>status_code = 200,
          decoded = Inr (JObj [(lit ''sessions'',
                      JArr [JObj [(lit ''name'', JStr pin), (lit ''vaccine'', JStr date)]])])\<rparr>"

definition online :: world where
  "online =
     \<lparr>tables = ascii, rnd_draw = 1,
      covid_http = Inr \<lparr>status_code = 200, decoded = Inr (JObj [])\<rparr>,
      who_http = Inl RequestException, cowin_http = echo_slots, fmts = plain_formats,
      np_argsort = order_preserving_argsort, tfidf_sim = failing_similarity\<rparr>"

definition titled_item :: "string \<Rightarrow> xml" where
  "titled_item t = Element (lit ''item'') None [Element (lit ''title'') (Some (lit t)) []]"

definition feed :: "xml list \<Rightarrow> xml" where
  "feed its = Element (lit ''rss'') None [Element (lit ''channel'') None its]"

section \<open>Properties of the matcher\<close>

text \<open>
  C7. With an empty FAQ corpus the matcher reports no match for every query, whatever the
  similarity library would do (it is never consulted, so even one that always raises
  cannot make the matcher fail), and no exception is raised.
\<close>

theorem faq_response_empty_corpus:
  "faq_response u argsort sim [] user_text threshold = Inr None"
  by (simp add: faq_response_def questions_def)

subsection \<open>The last index of an ascending order\<close>

lemma sorted_last_ge: "sorted xs \<Longrightarrow> x \<in> set xs \<Longrightarrow> x \<le> last xs"
  by (induction xs) (auto split: if_splits)

lemma ascending_order_covers:
  assumes "ascending_order sims order"
  shows "set order = {0..<length sims}"
proof -
  have sub: "set order \<subseteq> {0..<length sims}"
    using assms by (auto simp: ascending_order_def)
  have "card (set order) = length order"
    using assms by (simp add: ascending_order_def distinct_card)
  then have "card (set order) = card {0..<length sims}"
    using assms by (simp add: ascending_order_def)
  then show ?thesis using sub by (simp add: card_subset_eq)
qed

lemma ascending_order_last:
  assumes "ascending_order sims order" and "sims \<noteq> []"
  shows "order \<noteq> []" and "last order < length sims"
    and "sims ! last order = Max (set sims)"
proof -
  have len: "length order = length sims" using assms(1) unfolding ascending_order_def by blast
  show ne: "order \<noteq> []" using len assms(2) by (cases order) simp_all
  have cov: "set order = {0..<length sims}" by (rule ascending_order_covers[OF assms(1)])
  have lin: "last order \<in> set order" by (rule last_in_set[OF ne])
  show lt: "last order < length sims" using lin unfolding cov by simp
  have srt: "sorted (map (\<lambda>i. sims ! i) order)"
    using assms(1) unfolding ascending_order_def by blast
  have lastmap: "last (map (\<lambda>i. sims ! i) order) = sims ! last order"
    by (rule last_map[OF ne])
  have ge: "x \<le> sims ! last order" if "x \<in> set sims" for x
  proof -
    from that obtain j where j: "j < length sims" "sims ! j = x"
      unfolding in_set_conv_nth by blast
    have "j \<in> set order" unfolding cov using j(1) by simp
    then have "sims ! j \<in> (\<lambda>i. sims ! i) ` set order" by (rule imageI)
    then have "sims ! j \<in> set (map (\<lambda>i. sims ! i) order)" by (simp only: set_map)
    from sorted_last_ge[OF srt this] show ?thesis unfolding lastmap j(2) .
  qed
  have mem: "sims ! last order \<in> set sims" by (rule nth_mem[OF lt])
  have fin: "finite (set sims)" by simp
  show "sims ! last order = Max (set sims)"
    by (rule Max_eqI[symmetric, OF fin ge mem])
qed

lemma faq_response_scored:
  assumes "faq_pairs \<noteq> []"
    and "sim (questions faq_pairs) (strip u (lower u user_text)) = Inr sims"
    and "length sims = length faq_pairs"
    and "ascending_order sims (argsort sims)"
  shows "faq_response u argsort sim faq_pairs user_text threshold =
           (if Max (set sims) < threshold then Inr None
            else Inr (Some (answers faq_pairs ! last (argsort sims))))"
proof -
  have ne: "sims \<noteq> []" using assms(1,3) by auto
  have q: "questions faq_pairs \<noteq> []" using assms(1) by (simp add: questions_def)
  note l = ascending_order_last[OF assms(4) ne]
  have idx: "last (argsort sims) < length (answers faq_pairs)"
    using l(2) assms(3) by (simp add: answers_def)
  show ?thesis
    using q l idx assms(2) by (simp add: faq_response_def Let_def)
qed

subsection \<open>The two example sorts order the scores ascending\<close>

lemma enumerate_sorted_entries:
  assumes "set ss = set (enumerate 0 sims)" and "distinct (map fst ss)"
    and "length ss = length sims" and "sorted (map (\<lambda>i. sims ! i) (map fst ss))"
  shows "ascending_order sims (map fst ss)"
  unfolding ascending_order_def
proof (intro conjI ballI)
  show "length (map fst ss) = length sims" using assms(3) by simp
  show "distinct (map fst ss)" by (rule assms(2))
  show "sorted (map (\<lambda>i. sims ! i) (map fst ss))" by (rule assms(4))
next
  fix i assume "i \<in> set (map fst ss)"
  then obtain p where p: "p \<in> set ss" "i = fst p" by auto
  then have "p \<in> set (enumerate 0 sims)" using assms(1) by simp
  then have "fst p < length sims" by (simp add: in_set_enumerate_eq)
  then show "i < length sims" using p(2) by simp
qed

lemma entries_scores:
  assumes "set ss = set (enumerate 0 sims)"
  shows "map (\<lambda>i. sims ! i) (map fst ss) = map snd ss"
proof -
  have "sims ! fst p = snd p" if "p \<in> set ss" for p
  proof -
    have "p \<in> set (enumerate 0 sims)" using that assms by simp
    then show ?thesis by (simp add: in_set_enumerate_eq)
  qed
  then show ?thesis by (simp add: map_eq_conv)
qed

lemma distinct_fst_enumerate: "distinct (map fst (enumerate 0 sims))"
  by (simp only: map_fst_enumerate) simp

lemma distinct_fst_sort_key: "distinct (map fst (sort_key f (enumerate 0 sims)))"
proof -
  have "distinct (enumerate 0 sims) \<and> inj_on fst (set (enumerate 0 sims))"
    using distinct_fst_enumerate[of sims] by (simp only: distinct_map)
  then show ?thesis by (simp add: distinct_map)
qed

lemma order_preserving_ascending: "ascending_order sims (order_preserving_argsort sims)"
proof -
  let ?ss = "sort_key snd (enumerate 0 sims)"
  have st: "set ?ss = set (enumerate 0 sims)" by simp
  have "sorted (map snd ?ss)" by (rule sorted_sort_key)
  then have "sorted (map (\<lambda>i. sims ! i) (map fst ?ss))"
    by (simp only: entries_scores[OF st])
  then show ?thesis
    unfolding order_preserving_argsort_def
    by (intro enumerate_sorted_entries st distinct_fst_sort_key) simp_all
qed

lemma sorted_rev_of_negated: "sorted (map uminus xs) \<Longrightarrow> sorted (rev (xs::real list))"
  by (induction xs) (auto simp: sorted_append)

lemma tie_reversing_ascending: "ascending_order sims (tie_reversing_argsort sims)"
proof -
  let ?ss = "sort_key (\<lambda>p. - snd p) (enumerate 0 sims)"
  have st: "set (rev ?ss) = set (enumerate 0 sims)" by simp
  have "sorted (map (\<lambda>p. - snd p) ?ss)" by (rule sorted_sort_key)
  then have "sorted (map uminus (map snd ?ss))" by (simp add: comp_def)
  then have "sorted (rev (map snd ?ss))" by (rule sorted_rev_of_negated)
  then have "sorted (map snd (rev ?ss))" by (simp only: rev_map)
  then have srt: "sorted (map (\<lambda>i. sims ! i) (map fst (rev ?ss)))"
    by (simp only: entries_scores[OF st])
  have d: "distinct (map fst (rev ?ss))"
    using distinct_fst_sort_key[of "\<lambda>p. - snd p" sims] by (simp only: rev_map[symmetric] distinct_rev)
  have l: "length (rev ?ss) = length sims" by simp
  have "ascending_order sims (map fst (rev ?ss))"
    by (rule enumerate_sorted_entries[OF st d l srt])
  then show ?thesis
    unfolding tie_reversing_argsort_def by (simp only: rev_map)
qed

subsection \<open>Threshold, ties and alignment\<close>

text \<open>
  C1, as the code has it. For a non-empty corpus whose scores are \<open>sims\<close>, the matcher
  reports no match exactly when the maximum score is strictly below the threshold; a
  maximum score at or above the threshold, the threshold itself included, returns the
  answer stored at an index whose score is the maximum.
\<close>

theorem faq_response_threshold:
  assumes "faq_pairs \<noteq> []"
    and "sim (questions faq_pairs) (strip u (lower u user_text)) = Inr sims"
    and "length sims = length faq_pairs"
    and "ascending_order sims (argsort sims)"
  shows "(Max (set sims) < threshold \<longrightarrow>
            faq_response u argsort sim faq_pairs user_text threshold = Inr None)
       \<and> (threshold \<le> Max (set sims) \<longrightarrow>
            (\<exists>idx<length faq_pairs.
               sims ! idx = Max (set sims)
             \<and> faq_response u argsort sim faq_pairs user_text threshold
                 = Inr (Some (answers faq_pairs ! idx))))"
proof -
  have ne: "sims \<noteq> []" using assms(1,3) by auto
  note l = ascending_order_last[OF assms(4) ne]
  have r: "faq_response u argsort sim faq_pairs user_text threshold =
           (if Max (set sims) < threshold then Inr None
            else Inr (Some (answers faq_pairs ! last (argsort sims))))"
    using faq_response_scored[of faq_pairs sim u user_text sims argsort threshold] assms by simp
  have a: "faq_response u argsort sim faq_pairs user_text threshold = Inr None"
    if "Max (set sims) < threshold"
    using r that by simp
  have b: "\<exists>idx<length faq_pairs.
               sims ! idx = Max (set sims)
             \<and> faq_response u argsort sim faq_pairs user_text threshold
                 = Inr (Some (answers faq_pairs ! idx))"
    if "threshold \<le> Max (set sims)"
  proof (intro exI conjI)
    show "last (argsort sims) < length faq_pairs" using l(2) assms(3) by simp
    show "sims ! last (argsort sims) = Max (set sims)" by (rule l(3))
    show "faq_response u argsort sim faq_pairs user_text threshold
            = Inr (Some (answers faq_pairs ! last (argsort sims)))"
      using r that by simp
  qed
  show ?thesis using a b by blast
qed

text \<open>
  The theorem at a corpus of two pairs with maximum score 0.35: no match at threshold
  0.36, the second answer at threshold 0.35.
\<close>

theorem faq_response_threshold_witness:
  "faq_response ascii order_preserving_argsort (fixed_scores [1/10, 35/100])
     [(lit ''what is flu'', lit ''A viral infection.''),
      (lit ''what is a cold'', lit ''A mild illness.'')]
     (lit ''Cold?'') (36/100) = Inr None
   \<and> faq_response ascii order_preserving_argsort (fixed_scores [1/10, 35/100])
       [(lit ''what is flu'', lit ''A viral infection.''),
        (lit ''what is a cold'', lit ''A mild illness.'')]
       (lit ''Cold?'') (35/100) = Inr (Some (lit ''A mild illness.''))"
proof -
  let ?faq = "[(lit ''what is flu'', lit ''A viral infection.''),
               (lit ''what is a cold'', lit ''A mild illness.'')]"
  let ?sims = "[1/10, 35/100::real]"
  let ?sim = "fixed_scores ?sims"
  have h1: "?faq \<noteq> []" by simp
  have h2: "?sim (questions ?faq) (strip ascii (lower ascii (lit ''Cold?''))) = Inr ?sims"
    by (simp add: fixed_scores_def)
  have h3: "length ?sims = length ?faq" by simp
  have h4: "ascending_order ?sims (order_preserving_argsort ?sims)"
    by (simp add: ascending_order_def order_preserving_argsort_def)
  have mx: "Max (set ?sims) = 35/100" by simp
  note t = faq_response_threshold[of ?faq ?sim ascii "lit ''Cold?''" ?sims order_preserving_argsort]
  have a: "faq_response ascii order_preserving_argsort ?sim ?faq (lit ''Cold?'') (36/100) = Inr None"
    using t[of "36/100"] h1 h2 h3 h4 mx by simp
  obtain idx where i: "idx < length ?faq" "?sims ! idx = Max (set ?sims)"
    "faq_response ascii order_preserving_argsort ?sim ?faq (lit ''Cold?'') (35/100)
       = Inr (Some (answers ?faq ! idx))"
    using t[of "35/100"] h1 h2 h3 h4 mx by auto
  have "idx = 1" using i(1,2) by (cases idx) auto
  then have b: "faq_response ascii order_preserving_argsort ?sim ?faq (lit ''Cold?'') (35/100)
       = Inr (Some (lit ''A mild illness.''))"
    using i(3) by (simp add: answers_def)
  show ?thesis using a b by simp
qed

text \<open>
  C1 as stated fails: a query whose maximum score equals the threshold 0.35 exactly is
  not treated as no-match; the matcher returns the matched answer.
\<close>

theorem faq_response_threshold_counterexample:
  "faq_response ascii order_preserving_argsort (fixed_scores [35/100])
     [(lit ''what is flu'', lit ''A viral infection.'')] (lit ''flu'') (35/100)
     = Inr (Some (lit ''A viral infection.''))"
  by (simp add: faq_response_def fixed_scores_def questions_def answers_def
      order_preserving_argsort_def)

text \<open>
  C3, as the code has it. When the maximum score clears the threshold, the index the
  matcher selects is the one that \<open>argsort\<close> puts last; its score is the maximum, and the
  answer at that index is returned. Which of several indices with the maximum score that
  is, is left to \<open>argsort\<close>.
\<close>

theorem faq_response_tie:
  assumes "faq_pairs \<noteq> []"
    and "sim (questions faq_pairs) (strip u (lower u user_text)) = Inr sims"
    and "length sims = length faq_pairs"
    and "ascending_order sims (argsort sims)"
    and "threshold \<le> Max (set sims)"
  shows "last (argsort sims) < length faq_pairs
       \<and> sims ! last (argsort sims) = Max (set sims)
       \<and> faq_response u argsort sim faq_pairs user_text threshold
           = Inr (Some (answers faq_pairs ! last (argsort sims)))"
proof -
  have ne: "sims \<noteq> []" using assms(1,3) by auto
  note l = ascending_order_last[OF assms(4) ne]
  have r: "faq_response u argsort sim faq_pairs user_text threshold
           = Inr (Some (answers faq_pairs ! last (argsort sims)))"
    using faq_response_scored[of faq_pairs sim u user_text sims argsort threshold] assms by simp
  show ?thesis using l(2,3) r assms(3) by simp
qed

text \<open>
  The theorem at scores 0.5, 0.2, 0.5 under two sorts that both put the scores in
  ascending order: with one the answer of the third pair is returned, with the other the
  answer of the first.
\<close>

theorem faq_response_tie_witness:
  "faq_response ascii order_preserving_argsort (fixed_scores [1/2, 1/5, 1/2])
     [(lit ''q1'', lit ''a1''), (lit ''q2'', lit ''a2''), (lit ''q3'', lit ''a3'')]
     (lit ''q'') (35/100) = Inr (Some (lit ''a3''))
   \<and> faq_response ascii tie_reversing_argsort (fixed_scores [1/2, 1/5, 1/2])
     [(lit ''q1'', lit ''a1''), (lit ''q2'', lit ''a2''), (lit ''q3'', lit ''a3'')]
     (lit ''q'') (35/100) = Inr (Some (lit ''a1''))"
proof -
  let ?faq = "[(lit ''q1'', lit ''a1''), (lit ''q2'', lit ''a2''), (lit ''q3'', lit ''a3'')]"
  let ?sims = "[1/2, 1/5, 1/2::real]"
  let ?sim = "fixed_scores ?sims"
  have h1: "?faq \<noteq> []" by simp
  have h2: "?sim (questions ?faq) (strip ascii (lower ascii (lit ''q''))) = Inr ?sims"
    by (simp add: fixed_scores_def)
  have h3: "length ?sims = length ?faq" by simp
  have o1: "order_preserving_argsort ?sims = [1, 0, 2]"
    by (simp add: order_preserving_argsort_def)
  have o2: "tie_reversing_argsort ?sims = [1, 2, 0]"
    by (simp add: tie_reversing_argsort_def)
  have h4: "ascending_order ?sims (order_preserving_argsort ?sims)"
    unfolding o1 by (simp add: ascending_order_def)
  have h4': "ascending_order ?sims (tie_reversing_argsort ?sims)"
    unfolding o2 by (simp add: ascending_order_def)
  have h5: "(35/100::real) \<le> Max (set ?sims)" by simp
  have a: "faq_response ascii order_preserving_argsort ?sim ?faq (lit ''q'') (35/100)
             = Inr (Some (lit ''a3''))"
    using faq_response_tie[of ?faq ?sim ascii "lit ''q''" ?sims order_preserving_argsort "35/100"]
      h1 h2 h3 h4 h5 o1 by (simp add: answers_def)
  have b: "faq_response ascii tie_reversing_argsort ?sim ?faq (lit ''q'') (35/100)
             = Inr (Some (lit ''a1''))"
    using faq_response_tie[of ?faq ?sim ascii "lit ''q''" ?sims tie_reversing_argsort "35/100"]
      h1 h2 h3 h4' h5 o2 by (simp add: answers_def)
  show ?thesis using a b by simp
qed

text \<open>
  C3 as stated fails: with two questions tied for the maximum score and a sort that
  leaves equal scores in index order, the matcher returns the answer of the second one,
  not of the first-encountered one.
\<close>

theorem faq_response_tie_counterexample:
  "ascending_order [1/2, 1/2] (order_preserving_argsort [1/2, 1/2])
   \<and> faq_response ascii order_preserving_argsort (fixed_scores [1/2, 1/2])
       [(lit ''q1'', lit ''a1''), (lit ''q2'', lit ''a2'')] (lit ''q'') (35/100)
       = Inr (Some (lit ''a2''))
   \<and> lit ''a2'' \<noteq> lit ''a1''"
  by (simp add: faq_response_def fixed_scores_def questions_def answers_def
      order_preserving_argsort_def ascending_order_def lit_def)

text \<open>
  C6. The questions and the answers have the same length and the \<open>i\<close>-th question and
  the \<open>i\<close>-th answer are the two halves of the \<open>i\<close>-th FAQ pair; and an answer the
  matcher returns for a query is the answer stored at an index whose question has the
  highest score.
\<close>

theorem questions_answers_aligned:
  "length (questions faq_pairs) = length (answers faq_pairs)
   \<and> (\<forall>i<length faq_pairs. faq_pairs ! i = (questions faq_pairs ! i, answers faq_pairs ! i))
   \<and> (sim (questions faq_pairs) (strip u (lower u user_text)) = Inr sims
        \<and> length sims = length (questions faq_pairs)
        \<and> ascending_order sims (argsort sims)
        \<and> faq_response u argsort sim faq_pairs user_text threshold = Inr (Some a)
      \<longrightarrow> (\<exists>idx<length faq_pairs.
             sims ! idx = Max (set sims) \<and> a = answers faq_pairs ! idx
             \<and> faq_pairs ! idx = (questions faq_pairs ! idx, a)))"
proof (intro conjI impI)
  show "length (questions faq_pairs) = length (answers faq_pairs)"
    by (simp add: questions_def answers_def)
  show al: "\<forall>i<length faq_pairs. faq_pairs ! i = (questions faq_pairs ! i, answers faq_pairs ! i)"
    by (simp add: questions_def answers_def)
  assume h: "sim (questions faq_pairs) (strip u (lower u user_text)) = Inr sims
        \<and> length sims = length (questions faq_pairs)
        \<and> ascending_order sims (argsort sims)
        \<and> faq_response u argsort sim faq_pairs user_text threshold = Inr (Some a)"
  have ne: "faq_pairs \<noteq> []"
    using h by (auto simp: faq_response_def questions_def)
  have len: "length sims = length faq_pairs" using h by (simp add: questions_def)
  have sne: "sims \<noteq> []" using ne len by auto
  have ao: "ascending_order sims (argsort sims)" using h by simp
  have "a = answers faq_pairs ! last (argsort sims)"
    using faq_response_scored[of faq_pairs sim u user_text sims argsort threshold] ne len h
    by (auto split: if_splits)
  then show "\<exists>idx<length faq_pairs.
             sims ! idx = Max (set sims) \<and> a = answers faq_pairs ! idx
             \<and> faq_pairs ! idx = (questions faq_pairs ! idx, a)"
    using ascending_order_last(2,3)[OF ao sne] len al by auto
qed

text \<open>
  The theorem at a corpus of two pairs where the second question scores highest.
\<close>

theorem questions_answers_aligned_witness:
  "faq_response ascii order_preserving_argsort (fixed_scores [1/5, 9/10])
     [(lit ''what is flu'', lit ''A viral infection.''),
      (lit ''what is a cold'', lit ''A mild illness.'')]
     (lit ''a cold'') (35/100) = Inr (Some (lit ''A mild illness.''))
   \<and> [1/5, 9/10::real] ! 1 = Max (set [1/5, 9/10])
   \<and> answers [(lit ''what is flu'', lit ''A viral infection.''),
               (lit ''what is a cold'', lit ''A mild illness.'')] ! 1 = lit ''A mild illness.''
   \<and> questions [(lit ''what is flu'', lit ''A viral infection.''),
                 (lit ''what is a cold'', lit ''A mild illness.'')] ! 1 = lit ''what is a cold''"
proof -
  let ?faq = "[(lit ''what is flu'', lit ''A viral infection.''),
               (lit ''what is a cold'', lit ''A mild illness.'')]"
  let ?sims = "[1/5, 9/10::real]"
  let ?sim = "fixed_scores ?sims"
  have r: "faq_response ascii order_preserving_argsort ?sim ?faq (lit ''a cold'') (35/100)
             = Inr (Some (lit ''A mild illness.''))"
    by (simp add: faq_response_def fixed_scores_def questions_def answers_def
        order_preserving_argsort_def)
  have ao: "ascending_order ?sims (order_preserving_argsort ?sims)"
    by (simp add: ascending_order_def order_preserving_argsort_def)
  have h: "?sim (questions ?faq) (strip ascii (lower ascii (lit ''a cold''))) = Inr ?sims
        \<and> length ?sims = length (questions ?faq)
        \<and> ascending_order ?sims (order_preserving_argsort ?sims)
        \<and> faq_response ascii order_preserving_argsort ?sim ?faq (lit ''a cold'') (35/100)
            = Inr (Some (lit ''A mild illness.''))"
    using r ao by (simp add: fixed_scores_def questions_def)
  from questions_answers_aligned[of ?faq ?sim ascii "lit ''a cold''" ?sims
         order_preserving_argsort "35/100" "lit ''A mild illness.''"] h
  obtain idx where i: "idx < length ?faq" "?sims ! idx = Max (set ?sims)"
     "lit ''A mild illness.'' = answers ?faq ! idx"
     "?faq ! idx = (questions ?faq ! idx, lit ''A mild illness.'')"
    by blast
  have "idx = 1" using i(1,2) by (cases idx) auto
  then show ?thesis using r i by simp
qed

section \<open>Properties of the greeting check and its priority\<close>

lemma split_from_tokens:
  "\<forall>c\<in>set cur. \<not> isspace u c \<Longrightarrow> t \<in> set (split_from u cur s) \<Longrightarrow> \<forall>c\<in>set t. \<not> isspace u c"
proof (induction s arbitrary: cur)
  case Nil
  then show ?case by (auto split: if_splits)
next
  case (Cons a s)
  show ?case
  proof (cases "isspace u a")
    case True
    then have "t = cur \<or> t \<in> set (split_from u [] s)"
      using Cons.prems(2) by (auto split: if_splits)
    then show ?thesis
      using Cons.prems(1) Cons.IH[of "[]"] by auto
  next
    case False
    then have "t \<in> set (split_from u (cur @ [a]) s)" using Cons.prems(2) by simp
    moreover have "\<forall>c\<in>set (cur @ [a]). \<not> isspace u c" using False Cons.prems(1) by auto
    ultimately show ?thesis using Cons.IH[of "cur @ [a]"] by blast
  qed
qed

lemma split_tokens: "t \<in> set (split u s) \<Longrightarrow> \<forall>c\<in>set t. \<not> isspace u c"
  unfolding split_def using split_from_tokens[of "[]" u t s] by simp

lemma greet_loop_fires:
  "greet_loop u rnd ws =
     (if \<exists>t\<in>set ws. lower u t \<in> set GREET_IN then Some (random_choice rnd GREET_OUT) else None)"
  by (induction ws) auto

lemma random_choice_GREET_OUT: "random_choice rnd GREET_OUT \<noteq> []"
proof -
  have "rnd mod 4 < 4" by simp
  then have "rnd mod 4 = 0 \<or> rnd mod 4 = 1 \<or> rnd mod 4 = 2 \<or> rnd mod 4 = 3" by arith
  then show ?thesis by (auto simp: random_choice_def GREET_OUT_def lit_def)
qed

lemma ascii_lower_no_space:
  "\<forall>s. 0x20 \<in> set (lower ascii s) \<longrightarrow> (\<exists>c\<in>set s. isspace ascii c)"
proof (intro allI impI)
  fix s :: str
  assume "0x20 \<in> set (lower ascii s)"
  then obtain c where c: "c \<in> set s" "(if 65 \<le> c \<and> c \<le> 90 then c + 32 else c) = 0x20"
    by (auto simp: ascii_def)
  then have "c = 0x20" by (auto split: if_splits)
  then have "isspace ascii c" by (simp add: ascii_def)
  then show "\<exists>c\<in>set s. isspace ascii c" using c(1) by blast
qed

text \<open>
  C5. A message with a whitespace-delimited token that is a greeting word is answered by
  the greeting branch: the reply is the chosen greeting with the guidance suffix, and it
  does not depend on what the COVID endpoint would answer. This holds in particular for
  a message that also contains "covid", since the greeting check comes first.
\<close>

theorem greeting_checked_before_covid:
  assumes "t \<in> set (split (tables w) user_msg)" and "lower (tables w) t \<in> set GREET_IN"
  shows "handle_user_message w faq_pairs user_msg
           = Inr (random_choice (rnd_draw w) GREET_OUT @ greet_suffix)
       \<and> handle_user_message (w\<lparr>covid_http := r\<rparr>) faq_pairs user_msg
           = handle_user_message w faq_pairs user_msg"
proof -
  have ne: "user_msg \<noteq> []" using assms(1) by (auto simp: split_def)
  have g: "maybe_greet (tables w) rnd user_msg = Some (random_choice rnd GREET_OUT)" for rnd
    using assms by (auto simp: maybe_greet_def greet_loop_fires)
  have a: "handle_user_message w faq_pairs user_msg
          = Inr (random_choice (rnd_draw w) GREET_OUT @ greet_suffix)"
    using ne g[of "rnd_draw w"] random_choice_GREET_OUT[of "rnd_draw w"]
    by (simp add: handle_user_message_def)
  have b: "handle_user_message (w\<lparr>covid_http := r\<rparr>) faq_pairs user_msg
          = Inr (random_choice (rnd_draw w) GREET_OUT @ greet_suffix)"
    using ne g[of "rnd_draw w"] random_choice_GREET_OUT[of "rnd_draw w"]
    by (simp add: handle_user_message_def)
  show ?thesis using a b by simp
qed

text \<open>
  The theorem at "hi covid", with the COVID endpoint up and the random draw 1.
\<close>

theorem greeting_checked_before_covid_witness:
  "lit ''hi'' \<in> set (split (tables online) (lit ''hi covid''))
   \<and> lower (tables online) (lit ''hi'') \<in> set GREET_IN
   \<and> contains (lit ''covid'') (strip (tables online) (lower (tables online) (lit ''hi covid'')))
   \<and> handle_user_message online [] (lit ''hi covid'')
       = Inr (lit ''Hi there! Ask me about symptoms, prevention, vaccines, or outbreaks.'')"
proof -
  have h1: "lit ''hi'' \<in> set (split (tables online) (lit ''hi covid''))"
    by (simp add: online_def ascii_def split_def lit_def)
  have h2: "lower (tables online) (lit ''hi'') \<in> set GREET_IN"
    by (simp add: online_def ascii_def GREET_IN_def lit_def)
  have h3: "contains (lit ''covid'')
              (strip (tables online) (lower (tables online) (lit ''hi covid'')))"
    by (simp add: online_def ascii_def strip_def lit_def)
  have "handle_user_message online [] (lit ''hi covid'')
          = Inr (random_choice (rnd_draw online) GREET_OUT @ greet_suffix)"
    using greeting_checked_before_covid[OF h1 h2, of "[]"] by simp
  then have "handle_user_message online [] (lit ''hi covid'')
       = Inr (lit ''Hi there! Ask me about symptoms, prevention, vaccines, or outbreaks.'')"
    by (simp add: online_def random_choice_def GREET_OUT_def greet_suffix_def lit_def)
  then show ?thesis using h1 h2 h3 by blast
qed

text \<open>
  C10. Python's lowercasing brings in no space: a text whose lowercase form contains a
  space contains a whitespace character. With Unicode tables of which that is true, the
  greeting check fires exactly when some whitespace-delimited token, lowercased, is one
  of hello, hi, hey, namaste, whassup; no token of any text equals the entry
  "how are you?" of the greeting-word set, so that entry never matches.
\<close>

theorem maybe_greet_single_tokens:
  assumes "\<forall>s. 0x20 \<in> set (lower u s) \<longrightarrow> (\<exists>c\<in>set s. isspace u c)"
  shows "(maybe_greet u rnd txt \<noteq> None)
           = (\<exists>t\<in>set (split u txt).
                lower u t \<in> {lit ''hello'', lit ''hi'', lit ''hey'', lit ''namaste'',
                              lit ''whassup''})
       \<and> (\<forall>t\<in>set (split u txt). lower u t \<noteq> lit ''how are you?'')"
proof -
  have sp: "0x20 \<in> set (lit ''how are you?'')" by (simp add: lit_def)
  have no: "lower u t \<noteq> lit ''how are you?''" if "t \<in> set (split u txt)" for t
  proof
    assume e: "lower u t = lit ''how are you?''"
    then have "0x20 \<in> set (lower u t)" using sp by simp
    then have "\<exists>c\<in>set t. isspace u c" using assms by blast
    then show False using split_tokens[OF that] by blast
  qed
  have "(maybe_greet u rnd txt \<noteq> None) = (\<exists>t\<in>set (split u txt). lower u t \<in> set GREET_IN)"
    by (simp add: maybe_greet_def greet_loop_fires)
  also have "\<dots> = (\<exists>t\<in>set (split u txt).
                lower u t \<in> {lit ''hello'', lit ''hi'', lit ''hey'', lit ''namaste'',
                              lit ''whassup''})"
    using no by (auto simp: GREET_IN_def)
  finally show ?thesis using no by blast
qed

text \<open>
  The theorem at the text "how are you?" itself, which does not greet, and at a text
  with the token "Namaste", which does.
\<close>

theorem maybe_greet_single_tokens_witness:
  "maybe_greet ascii 0 (lit ''how are you?'') = None
   \<and> maybe_greet ascii 0 (lit ''Namaste doctor'') \<noteq> None"
proof -
  have s1: "split ascii (lit ''how are you?'') = [lit ''how'', lit ''are'', lit ''you?'']"
    by (simp add: split_def ascii_def lit_def)
  have s2: "split ascii (lit ''Namaste doctor'') = [lit ''Namaste'', lit ''doctor'']"
    by (simp add: split_def ascii_def lit_def)
  have a: "maybe_greet ascii 0 (lit ''how are you?'') = None"
    using maybe_greet_single_tokens[OF ascii_lower_no_space, of 0 "lit ''how are you?''"]
    unfolding s1 by (simp add: ascii_def lit_def)
  have b: "maybe_greet ascii 0 (lit ''Namaste doctor'') \<noteq> None"
    using maybe_greet_single_tokens[OF ascii_lower_no_space, of 0 "lit ''Namaste doctor''"]
    unfolding s2 by (simp add: ascii_def lit_def)
  show ?thesis using a b by simp
qed

section \<open>Properties of the live data fetchers\<close>

lemma covid_caught: "get_covid_try fm res = Inl e \<Longrightarrow> get_covid_update_india fm res = covid_unavailable"
  by (simp add: get_covid_update_india_def)

lemma who_caught: "get_who_try res limit = Inl e \<Longrightarrow> get_who_outbreak_headlines res limit = who_unavailable"
  by (simp add: get_who_outbreak_headlines_def)

lemma cowin_caught: "get_cowin_try fm res = Inl e \<Longrightarrow> get_cowin_slots_by_pin fm res = cowin_unavailable"
  by (simp add: get_cowin_slots_by_pin_def)

text \<open>
  C8. Each of the three fetchers returns its fixed fallback string when the request
  raises (timeout, network error), when the status code is not 200, when decoding the
  body raises (malformed payload), and for any other exception raised inside its
  \<open>try\<close>; the fetchers return a string in every case, so no exception reaches the caller.
\<close>

theorem fetchers_fall_back:
  "get_covid_update_india fm (Inl e) = covid_unavailable
   \<and> (status_code r \<noteq> 200 \<longrightarrow> get_covid_update_india fm (Inr r) = covid_unavailable)
   \<and> (decoded r = Inl e \<longrightarrow> get_covid_update_india fm (Inr r) = covid_unavailable)
   \<and> (get_covid_try fm res = Inl e \<longrightarrow> get_covid_update_india fm res = covid_unavailable)
   \<and> get_who_outbreak_headlines (Inl e) limit = who_unavailable
   \<and> (status_code rx \<noteq> 200 \<longrightarrow> get_who_outbreak_headlines (Inr rx) limit = who_unavailable)
   \<and> (decoded rx = Inl e \<longrightarrow> get_who_outbreak_headlines (Inr rx) limit = who_unavailable)
   \<and> (get_who_try resx limit = Inl e \<longrightarrow> get_who_outbreak_headlines resx limit = who_unavailable)
   \<and> get_cowin_slots_by_pin fm (Inl e) = cowin_unavailable
   \<and> (status_code r \<noteq> 200 \<longrightarrow> get_cowin_slots_by_pin fm (Inr r) = cowin_unavailable)
   \<and> (decoded r = Inl e \<longrightarrow> get_cowin_slots_by_pin fm (Inr r) = cowin_unavailable)
   \<and> (get_cowin_try fm res = Inl e \<longrightarrow> get_cowin_slots_by_pin fm res = cowin_unavailable)"
proof (intro conjI impI)
  show "get_covid_update_india fm (Inl e) = covid_unavailable"
    by (simp add: get_covid_update_india_def get_covid_try_def)
  show "get_covid_update_india fm (Inr r) = covid_unavailable" if "status_code r \<noteq> 200"
    using that by (simp add: get_covid_update_india_def get_covid_try_def)
  show "get_covid_update_india fm (Inr r) = covid_unavailable" if "decoded r = Inl e"
    using that by (simp add: get_covid_update_india_def get_covid_try_def)
  show "get_covid_update_india fm res = covid_unavailable" if "get_covid_try fm res = Inl e"
    using that by (rule covid_caught)
  show "get_who_outbreak_headlines (Inl e) limit = who_unavailable"
    by (simp add: get_who_outbreak_headlines_def get_who_try_def)
  show "get_who_outbreak_headlines (Inr rx) limit = who_unavailable" if "status_code rx \<noteq> 200"
    using that by (simp add: get_who_outbreak_headlines_def get_who_try_def)
  show "get_who_outbreak_headlines (Inr rx) limit = who_unavailable" if "decoded rx = Inl e"
    using that by (simp add: get_who_outbreak_headlines_def get_who_try_def)
  show "get_who_outbreak_headlines resx limit = who_unavailable" if "get_who_try resx limit = Inl e"
    using that by (rule who_caught)
  show "get_cowin_slots_by_pin fm (Inl e) = cowin_unavailable"
    by (simp add: get_cowin_slots_by_pin_def get_cowin_try_def)
  show "get_cowin_slots_by_pin fm (Inr r) = cowin_unavailable" if "status_code r \<noteq> 200"
    using that by (simp add: get_cowin_slots_by_pin_def get_cowin_try_def)
  show "get_cowin_slots_by_pin fm (Inr r) = cowin_unavailable" if "decoded r = Inl e"
    using that by (simp add: get_cowin_slots_by_pin_def get_cowin_try_def)
  show "get_cowin_slots_by_pin fm res = cowin_unavailable" if "get_cowin_try fm res = Inl e"
    using that by (rule cowin_caught)
qed

text \<open>
  The theorem at a timed-out request, at status 500, and at bodies that decode to a value
  of the wrong shape (a list where an object is expected, a number where a session is).
\<close>

theorem fetchers_fall_back_witness:
  "get_covid_update_india plain_formats (Inl RequestException) = covid_unavailable
   \<and> get_covid_update_india plain_formats (Inr \<lparr>status_code = 500, decoded = Inl JSONDecodeError\<rparr>)
        = covid_unavailable
   \<and> get_covid_try plain_formats (Inr \<lparr>status_code = 200, decoded = Inr (JArr [])\<rparr>)
        = Inl AttributeError
   \<and> get_covid_update_india plain_formats (Inr \<lparr>status_code = 200, decoded = Inr (JArr [])\<rparr>)
        = covid_unavailable
   \<and> get_who_outbreak_headlines (Inr \<lparr>status_code = 500, decoded = Inl ParseError\<rparr>) 5
        = who_unavailable
   \<and> get_cowin_slots_by_pin plain_formats (Inr \<lparr>status_code = 500, decoded = Inl JSONDecodeError\<rparr>)
        = cowin_unavailable
   \<and> get_cowin_try plain_formats
        (Inr \<lparr>status_code = 200, decoded = Inr (JObj [(lit ''sessions'', JArr [JNum 1])])\<rparr>)
        = Inl AttributeError
   \<and> get_cowin_slots_by_pin plain_formats
        (Inr \<lparr>status_code = 200, decoded = Inr (JObj [(lit ''sessions'', JArr [JNum 1])])\<rparr>)
        = cowin_unavailable"
proof -
  let ?bad = "\<lparr>status_code = 500, decoded = Inl JSONDecodeError\<rparr> :: json response"
  let ?badx = "\<lparr>status_code = 500, decoded = Inl ParseError\<rparr> :: xml response"
  let ?lst = "Inr \<lparr>status_code = 200, decoded = Inr (JArr [])\<rparr> :: json http_result"
  let ?ses = "Inr \<lparr>status_code = 200, decoded = Inr (JObj [(lit ''sessions'', JArr [JNum 1])])\<rparr>
                :: json http_result"
  have t1: "get_covid_try plain_formats ?lst = Inl AttributeError"
    by (simp add: get_covid_try_def)
  have t2: "get_cowin_try plain_formats ?ses = Inl AttributeError"
    by (simp add: get_cowin_try_def dict_get_def lit_def)
  note a = fetchers_fall_back[of plain_formats RequestException ?bad ?lst 5 ?badx "Inl RequestException"]
  note b = fetchers_fall_back[of plain_formats AttributeError ?bad ?lst 5 ?badx "Inl RequestException"]
  note c = fetchers_fall_back[of plain_formats AttributeError ?bad ?ses 5 ?badx "Inl RequestException"]
  show ?thesis using a b c t1 t2 by simp
qed

lemma title_lines_titles:
  "title_lines its
     = map (\<lambda>t. bullet @ lit '' '' @ t) (filter (\<lambda>t. t \<noteq> []) (List.map_filter item_title its))"
  by (induction its) (auto simp: map_filter_simps split: option.splits)

lemma length_map_filter_le: "length (List.map_filter f xs) \<le> length xs"
  by (induction xs) (auto simp: map_filter_simps split: option.splits)

text \<open>
  C9, as the code has it. For a response with status 200: a body that does not parse
  gives the fixed "unavailable" string; a body that parses gives the non-empty titles of
  the first \<open>limit\<close> items (the router passes 5), in document order, each as a bulleted
  line under the header, and the fixed "no items" string when there is none (no channel,
  no item, or no non-empty title among those items).
\<close>

theorem who_headlines:
  assumes "status_code r = 200"
  shows "(decoded r = Inl e \<longrightarrow> get_who_outbreak_headlines (Inr r) limit = who_unavailable)
       \<and> (decoded r = Inr root_elem \<longrightarrow>
            (let ts = filter (\<lambda>t. t \<noteq> [])
                        (List.map_filter item_title (take limit (feed_items root_elem)))
             in length ts \<le> limit
                \<and> get_who_outbreak_headlines (Inr r) limit
                    = (if ts = [] then who_no_items
                       else who_header @ newline
                            @ join newline (map (\<lambda>t. bullet @ lit '' '' @ t) ts))))"
proof (intro conjI impI)
  show "get_who_outbreak_headlines (Inr r) limit = who_unavailable" if "decoded r = Inl e"
    using that assms by (simp add: get_who_outbreak_headlines_def get_who_try_def)
next
  assume d: "decoded r = Inr root_elem"
  let ?items = "feed_items root_elem"
  let ?ts = "filter (\<lambda>t. t \<noteq> []) (List.map_filter item_title (take limit ?items))"
  have "length ?ts \<le> length (List.map_filter item_title (take limit ?items))" by simp
  also have "\<dots> \<le> length (take limit ?items)" by (rule length_map_filter_le)
  also have "\<dots> \<le> limit" by simp
  finally have len: "length ?ts \<le> limit" .
  have tl: "title_lines (take limit ?items) = map (\<lambda>t. bullet @ lit '' '' @ t) ?ts"
    by (rule title_lines_titles)
  have res: "get_who_outbreak_headlines (Inr r) limit
          = (if ?ts = [] then who_no_items
             else who_header @ newline @ join newline (map (\<lambda>t. bullet @ lit '' '' @ t) ?ts))"
  proof (cases "?items = []")
    case True
    then show ?thesis using assms d
      by (simp add: get_who_outbreak_headlines_def get_who_try_def map_filter_simps)
  next
    case False
    then show ?thesis using assms d tl
      by (simp add: get_who_outbreak_headlines_def get_who_try_def Let_def)
  qed
  show "let ts = ?ts in length ts \<le> limit
                \<and> get_who_outbreak_headlines (Inr r) limit
                    = (if ts = [] then who_no_items
                       else who_header @ newline
                            @ join newline (map (\<lambda>t. bullet @ lit '' '' @ t) ts))"
    using len res by (simp add: Let_def)
qed

text \<open>
  C9 as stated fails: a malformed feed, one whose body does not parse, gives the
  "unavailable" string and not the "no items" string.
\<close>

theorem who_headlines_counterexample:
  "get_who_outbreak_headlines (Inr \<lparr>status_code = 200, decoded = Inl ParseError\<rparr>) 5
     = who_unavailable
   \<and> who_unavailable \<noteq> who_no_items"
  by (simp add: get_who_outbreak_headlines_def get_who_try_def who_unavailable_def who_no_items_def
      lit_def)

text \<open>
  The theorem at a feed of seven items whose second and third have no title text (three
  lines come from the first five items), at a feed without items, at a document without
  a channel, and at a body that does not parse.
\<close>

theorem who_headlines_witness:
  "get_who_outbreak_headlines
     (Inr \<lparr>status_code = 200,
          decoded = Inr (feed [titled_item ''Ebola'', titled_item '''', Element (lit ''item'') None [],
                              titled_item ''Cholera'', titled_item ''Mpox'',
                              titled_item ''Measles'', titled_item ''Polio''])\<rparr>) 5
     = who_header @ newline @ bullet @ lit '' Ebola'' @ newline @ bullet @ lit '' Cholera''
       @ newline @ bullet @ lit '' Mpox''
   \<and> get_who_outbreak_headlines (Inr \<lparr>status_code = 200, decoded = Inr (feed [])\<rparr>) 5
       = who_no_items
   \<and> get_who_outbreak_headlines
       (Inr \<lparr>status_code = 200, decoded = Inr (Element (lit ''html'') None [])\<rparr>) 5 = who_no_items
   \<and> get_who_outbreak_headlines (Inr \<lparr>status_code = 200, decoded = Inl ParseError\<rparr>) 5
       = who_unavailable"
proof -
  let ?f = "feed [titled_item ''Ebola'', titled_item '''', Element (lit ''item'') None [],
                  titled_item ''Cholera'', titled_item ''Mpox'',
                  titled_item ''Measles'', titled_item ''Polio'']"
  have ev: "feed_items (feed its) = filter (\<lambda>c. elem_tag c = lit ''item'') its" for its
    by (simp add: feed_items_def feed_def find_child_def findall_def lit_def)
  have a: "get_who_outbreak_headlines (Inr \<lparr>status_code = 200, decoded = Inr ?f\<rparr>) 5
     = who_header @ newline @ bullet @ lit '' Ebola'' @ newline @ bullet @ lit '' Cholera''
       @ newline @ bullet @ lit '' Mpox''"
    using who_headlines[of "\<lparr>status_code = 200, decoded = Inr ?f\<rparr>" ParseError 5 ?f]
    by (simp add: ev titled_item_def item_title_def find_child_def map_filter_simps Let_def
        lit_def)
  have b: "get_who_outbreak_headlines (Inr \<lparr>status_code = 200, decoded = Inr (feed [])\<rparr>) 5
       = who_no_items"
    using who_headlines[of "\<lparr>status_code = 200, decoded = Inr (feed [])\<rparr>" ParseError 5 "feed []"]
    by (simp add: ev map_filter_simps Let_def)
  have c: "get_who_outbreak_headlines
       (Inr \<lparr>status_code = 200, decoded = Inr (Element (lit ''html'') None [])\<rparr>) 5 = who_no_items"
    using who_headlines[of "\<lparr>status_code = 200, decoded = Inr (Element (lit ''html'') None [])\<rparr>"
                           ParseError 5 "Element (lit ''html'') None []"]
    by (simp add: feed_items_def find_child_def map_filter_simps Let_def lit_def)
  have d: "get_who_outbreak_headlines (Inr \<lparr>status_code = 200, decoded = Inl ParseError\<rparr>) 5
       = who_unavailable"
    using who_headlines[of "\<lparr>status_code = 200, decoded = Inl ParseError\<rparr>" ParseError 5]
    by simp
  show ?thesis using a b c d by simp
qed

section \<open>The FAQ store on a marker inside a line\<close>

lemma faq_loop_one_pair:
  "faq_loop u [q, a] 0
     = [(lower u (strip u (remove_all (lit ''Q:'') q)), strip u (remove_all (lit ''A:'') a))]"
proof -
  have e: "faq_loop u [q, a] (Suc (Suc 0)) = []" by (subst faq_loop.simps) simp
  show ?thesis by (subst faq_loop.simps) (simp add: e)
qed

text \<open>
  C4 at a source whose answer line contains "A:" behind its prefix marker: \<open>load_faq\<close>
  deletes that occurrence as well, so the answer it stores is not the text of the line
  behind the marker.
\<close>

theorem load_faq_inner_marker:
  "load_faq ascii (Some [lit ''Q: What is flu?'', lit ''A: Vitamin A: helps.''])
     = [(lit ''what is flu?'', lit ''Vitamin  helps.'')]
   \<and> lit ''Vitamin  helps.'' \<noteq> lit ''Vitamin A: helps.''"
proof -
  have l: "filter (\<lambda>l. l \<noteq> []) (map (strip ascii) [lit ''Q: What is flu?'', lit ''A: Vitamin A: helps.''])
             = [lit ''Q: What is flu?'', lit ''A: Vitamin A: helps.'']"
    by (simp add: strip_def ascii_def lit_def)
  have q: "lower ascii (strip ascii (remove_all (lit ''Q:'') (lit ''Q: What is flu?'')))
             = lit ''what is flu?''"
    by (simp add: strip_def ascii_def lit_def)
  have a: "strip ascii (remove_all (lit ''A:'') (lit ''A: Vitamin A: helps.''))
             = lit ''Vitamin  helps.''"
    by (simp add: strip_def ascii_def lit_def)
  have "load_faq ascii (Some [lit ''Q: What is flu?'', lit ''A: Vitamin A: helps.''])
     = [(lit ''what is flu?'', lit ''Vitamin  helps.'')]"
    by (simp only: load_faq_def option.case l faq_loop_one_pair q a)
  moreover have "lit ''Vitamin  helps.'' \<noteq> lit ''Vitamin A: helps.''" by (simp add: lit_def)
  ultimately show ?thesis by simp
qed

section \<open>The slot-lookup branch on the texts of the usage hint\<close>

text \<open>
  C2 at the two texts the usage hint tells the user to send: "Check slots" and
  "Check slots 700001 31-08-2025" name no vaccine, so the router does not reach the slot
  branch; with an empty FAQ it answers with the final fallback, which is not the usage
  hint, although the two patterns find 700001 and 31-08-2025 in the text.
\<close>

theorem check_slots_falls_through:
  "handle_user_message (offline failing_similarity) [] (lit ''Check slots'') = Inr apology
   \<and> handle_user_message (offline failing_similarity) [] (lit ''Check slots 700001 31-08-2025'')
       = Inr apology
   \<and> apology \<noteq> usage_hint
   \<and> search_pin ascii (lit ''check slots 700001 31-08-2025'') = Some (lit ''700001'')
   \<and> search_date ascii (lit ''check slots 700001 31-08-2025'') = Some (lit ''31-08-2025'')"
proof -
  have a: "handle_user_message (offline failing_similarity) [] (lit ''Check slots'') = Inr apology"
    by (simp add: handle_user_message_def maybe_greet_def split_def offline_def ascii_def
        GREET_IN_def strip_def faq_response_def questions_def lit_def)
  have b: "handle_user_message (offline failing_similarity) []
             (lit ''Check slots 700001 31-08-2025'') = Inr apology"
    by (simp add: handle_user_message_def maybe_greet_def split_def offline_def ascii_def
        GREET_IN_def strip_def faq_response_def questions_def lit_def)
  have c: "apology \<noteq> usage_hint" by (simp add: apology_def usage_hint_def lit_def)
  have d: "search_pin ascii (lit ''check slots 700001 31-08-2025'') = Some (lit ''700001'')"
    by (simp add: search_pin_def pin_pattern_def at_boundary_def is_word_def ascii_def lit_def)
  have e: "search_date ascii (lit ''check slots 700001 31-08-2025'') = Some (lit ''31-08-2025'')"
    by (simp add: search_date_def date_pattern_def at_boundary_def is_word_def ascii_def lit_def)
  show ?thesis using a b c d e by simp
qed

end
